theory Spec2Isabelle
  imports Complex_Main
begin

section \<open>projectron: projection resolution and coordinate transforms\<close>

text \<open>
  A shallow embedding of \<^verbatim>\<open>math.go\<close>, \<^verbatim>\<open>projection.go\<close> and the kernel file
  (\<^verbatim>\<open>lookupImpl\<close>, \<^verbatim>\<open>LngLat\<close>, \<^verbatim>\<open>Mercator\<close>, \<^verbatim>\<open>LCC\<close>, \<^verbatim>\<open>Equirectangular\<close>).

  Numbers. A Go \<^verbatim>\<open>float64\<close> is modelled by a \<^typ>\<open>real\<close>: every finite value stands
  for itself and every operation is exact, so rounding, overflow, signed zeros and NaN
  are outside the model. The functions of package \<^verbatim>\<open>math\<close> are the real functions
  of the same name (\<^verbatim>\<open>Pow\<close> is \<^term>\<open>(powr)\<close>, \<^verbatim>\<open>Log\<close> is \<^term>\<open>ln\<close>,
  \<^verbatim>\<open>Atan\<close> is \<^term>\<open>arctan\<close>, \<^verbatim>\<open>Floor\<close> is \<^term>\<open>floor\<close>). A division
  whose divisor is zero is \<open>\<plusminus>\<close>Inf or NaN in Go and \<open>0\<close> in HOL; a statement below
  that reads a quotient says that its divisor is not zero, the other statements for
  all inputs are about steps that read no quotient, and every concrete definition
  used below keeps the divisors away from zero. The one infinite value that is part
  of the interface, the sentinel \<^verbatim>\<open>hugeVal = math.Inf(1)\<close>, is a constructor of
  its own in the type of the coordinates that \<^verbatim>\<open>Forward\<close> returns and
  \<^verbatim>\<open>Inverse\<close> receives.
\<close>

subsection \<open>Errors, panics and coordinate values\<close>

text \<open>
  The three package-level error values, and \<^verbatim>\<open>errors.New(msg)\<close> for the errors made
  on the spot.
\<close>

datatype error = ErrUnsupportedProj | ErrUnknownDatum | ErrInvalidParam | errors_New string

text \<open>
  A call either returns or panics (an index out of range, or an explicit
  \<^verbatim>\<open>panic\<close>); a panic unwinds through every caller of this package. \<open>returned\<close>
  reads what a call that returned has returned.
\<close>

datatype 'a outcome = is_Panic: Panic string | is_Return: Return (returned: 'a)

text \<open>A coordinate handed across the interface: a finite number or \<^verbatim>\<open>hugeVal\<close>.\<close>

datatype coord = Num real | hugeVal

subsection \<open>math.go: constants\<close>

text \<open>
  \<^verbatim>\<open>s_pi float64 = 3.14159265359\<close> is a typed constant: its value is the
  \<^verbatim>\<open>float64\<close> nearest to that decimal, written out here, because the test
  \<^verbatim>\<open>math.Abs(x) <= s_pi\<close> of \<^verbatim>\<open>adjLng\<close> compares with exactly this value.
\<close>

definition s_pi :: real where
  "s_pi = 3.14159265359000006156975359772332012653350830078125"
definition two_pi :: real where "two_pi = pi * 2"
definition half_pi :: real where "half_pi = pi / 2"
definition fort_pi :: real where "fort_pi = pi / 4"
definition d2r :: real where "d2r = pi / 180"

subsection \<open>projection.go: constants\<close>

text \<open>
  \<^verbatim>\<open>sixth float64 = 1 / 6\<close>, \<^verbatim>\<open>ra4 = 17 / 360\<close>, \<^verbatim>\<open>ra6 = 67 / 3024\<close>,
  \<^verbatim>\<open>rv4 = 5 / 72\<close> and \<^verbatim>\<open>rv6 = 55 / 1296\<close> are constant expressions over untyped
  integer constants, so Go divides them as integers before any conversion.
\<close>

definition sixth :: real where "sixth = of_int (1 div 6)"
definition ra4 :: real where "ra4 = of_int (17 div 360)"
definition ra6 :: real where "ra6 = of_int (67 div 3024)"
definition rv4 :: real where "rv4 = of_int (5 div 72)"
definition rv6 :: real where "rv6 = of_int (55 div 1296)"
definition sec2rad :: real where "sec2rad = 4.84813681109535993589914102357 / 10 ^ 6"
definition epsln :: real where "epsln = 1 / 10 ^ 10"

text \<open>
  \<^verbatim>\<open>type datumType int\<close>. The constant block gives \<^verbatim>\<open>PJD_UNKNOWN datumType = 0\<close>
  and then four names with no expression; without \<^verbatim>\<open>iota\<close> each of them repeats
  the expression of the line before, so all five constants are \<open>0\<close>.
\<close>

type_synonym datumType = int

definition PJD_UNKNOWN :: datumType where "PJD_UNKNOWN = 0"
definition PJD_GRIDSHIFT :: datumType where "PJD_GRIDSHIFT = PJD_UNKNOWN"
definition PJD_7PARAM :: datumType where "PJD_7PARAM = PJD_GRIDSHIFT"
definition PJD_3PARAM :: datumType where "PJD_3PARAM = PJD_7PARAM"
definition PJD_WGS84 :: datumType where "PJD_WGS84 = PJD_3PARAM"

subsection \<open>math.go: numeric helpers\<close>

definition msfn :: "real \<Rightarrow> real \<Rightarrow> real \<Rightarrow> real" where
  "msfn sinphi cosphi es = cosphi / sqrt (1 - es * sinphi * sinphi)"

definition tsfn :: "real \<Rightarrow> real \<Rightarrow> real \<Rightarrow> real" where
  "tsfn phi sinphi e =
     tan (0.5 * (half_pi - phi)) / (((1 - sinphi) / (1 + sinphi)) powr (0.5 * e))"

text \<open>
  \<^verbatim>\<open>phi2(e, ts)\<close>: the loop \<^verbatim>\<open>for i := 0; i <= 15; i++\<close> runs at most 16 times;
  the first argument of \<open>phi2_loop\<close> counts the iterations that are left.
\<close>

fun phi2_loop :: "nat \<Rightarrow> real \<Rightarrow> real \<Rightarrow> real \<Rightarrow> real \<Rightarrow> error + real" where
  "phi2_loop 0 e ts eth phi = Inl (errors_New ''phi2 has no convergence'')"
| "phi2_loop (Suc k) e ts eth phi =
     (let con = e * sin phi;
          dphi = half_pi - 2 * arctan (ts * (((1 - con) / (1 + con)) powr eth)) - phi;
          phi' = phi + dphi
      in if \<bar>dphi\<bar> < epsln then Inr phi' else phi2_loop k e ts eth phi')"

definition phi2 :: "real \<Rightarrow> real \<Rightarrow> error + real" where
  "phi2 e ts = phi2_loop 16 e ts (e * 0.5) (half_pi - 2 * arctan ts)"

text \<open>
  \<^verbatim>\<open>adjLng\<close>. The test and the identity branch involve no arithmetic. The three
  assignments of the other branch are exact here, where the source rounds each of
  its four operations to \<^verbatim>\<open>float64\<close>.
\<close>

definition adjLng :: "real \<Rightarrow> real" where
  "adjLng x =
     (if \<bar>x\<bar> \<le> s_pi then x
      else (let x1 = x + pi;
                x2 = x1 - two_pi * of_int \<lfloor>x1 / two_pi\<rfloor>
            in x2 - pi))"

subsection \<open>Strings\<close>

text \<open>
  \<^verbatim>\<open>strings.Split(s, sep)\<close> for a separator of one byte: the pieces between the
  occurrences of the separator, one more than there are occurrences.
\<close>

fun strings_Split :: "string \<Rightarrow> char \<Rightarrow> string list" where
  "strings_Split [] sep = [] # []"
| "strings_Split (c # cs) sep =
     (if c = sep then [] # strings_Split cs sep
      else (case strings_Split cs sep of
              [] \<Rightarrow> [c] # []
            | p # ps \<Rightarrow> (c # p) # ps))"

text \<open>\<^verbatim>\<open>strings.TrimSpace\<close> on ASCII text: tab, line feed, vertical tab, form feed,
  carriage return and space are white space.\<close>

definition isSpace :: "char \<Rightarrow> bool" where
  "isSpace c \<longleftrightarrow> c \<in> {CHR 0x09, CHR 0x0A, CHR 0x0B, CHR 0x0C, CHR 0x0D, CHR 0x20}"

definition strings_TrimSpace :: "string \<Rightarrow> string" where
  "strings_TrimSpace s = rev (dropWhile isSpace (rev (dropWhile isSpace s)))"

text \<open>\<^verbatim>\<open>strings.Index(s, sep)\<close> for a separator of one byte; \<open>-1\<close> when it is absent.\<close>

fun strings_Index :: "string \<Rightarrow> char \<Rightarrow> int" where
  "strings_Index [] sep = -1"
| "strings_Index (c # cs) sep =
     (if c = sep then 0
      else (let i = strings_Index cs sep in if i < 0 then -1 else i + 1))"

definition strings_HasSuffix :: "string \<Rightarrow> char \<Rightarrow> bool" where
  "strings_HasSuffix s c \<longleftrightarrow> s \<noteq> [] \<and> last s = c"

subsection \<open>strconv\<close>

text \<open>
  \<^verbatim>\<open>strconv.ParseFloat(s, 64)\<close> on decimal literals: an optional sign, digits with
  at most one point and at least one digit, and an optional exponent \<^verbatim>\<open>e\<close> or
  \<^verbatim>\<open>E\<close> with an optional sign and at least one digit. The value is the exact
  decimal, also where \<^verbatim>\<open>float64\<close> would round it or leave its range. \<open>None\<close> is a
  syntax error, where Go returns \<open>0\<close> and a non-nil error. The spellings of infinity
  and NaN, which have no real value, and the hexadecimal literals of later Go versions
  are not literals of the model.
\<close>

definition isDigit :: "char \<Rightarrow> bool" where
  "isDigit c \<longleftrightarrow> (48::nat) \<le> of_char c \<and> of_char c \<le> (57::nat)"

definition digitsVal :: "string \<Rightarrow> nat" where
  "digitsVal ds = foldl (\<lambda>n c. 10 * n + (of_char c - 48)) 0 ds"

definition readSign :: "string \<Rightarrow> bool \<times> string" where
  "readSign s =
     (case s of
        [] \<Rightarrow> (False, [])
      | c # cs \<Rightarrow> if c = CHR ''+'' then (False, cs)
                 else if c = CHR ''-'' then (True, cs)
                 else (False, s))"

definition readExponent :: "string \<Rightarrow> int option" where
  "readExponent s =
     (case s of
        [] \<Rightarrow> Some 0
      | c # cs \<Rightarrow>
          if c = CHR ''e'' \<or> c = CHR ''E'' then
            (let (eneg, r) = readSign cs in
             if r \<noteq> [] \<and> list_all isDigit r
             then Some (if eneg then - int (digitsVal r) else int (digitsVal r))
             else None)
          else None)"

definition strconv_ParseFloat :: "string \<Rightarrow> real option" where
  "strconv_ParseFloat s =
     (let (neg, s1) = readSign s;
          ip = takeWhile isDigit s1;
          r1 = dropWhile isDigit s1;
          hasPoint = (r1 \<noteq> [] \<and> hd r1 = CHR ''.'');
          fp = (if hasPoint then takeWhile isDigit (tl r1) else []);
          r2 = (if hasPoint then dropWhile isDigit (tl r1) else r1)
      in if ip = [] \<and> fp = [] then None
         else (case readExponent r2 of
                 None \<Rightarrow> None
               | Some ex \<Rightarrow>
                   (let m = real (digitsVal (ip @ fp)) / 10 ^ length fp;
                        v = (if 0 \<le> ex then m * 10 ^ nat ex else m / 10 ^ nat (- ex))
                    in Some (if neg then - v else v))))"

text \<open>\<^verbatim>\<open>strconv.ParseBool\<close>: the twelve accepted spellings; \<open>None\<close> is the error.\<close>

definition strconv_ParseBool :: "string \<Rightarrow> bool option" where
  "strconv_ParseBool s =
     (if s \<in> {''1'', ''t'', ''T'', ''TRUE'', ''true'', ''True''} then Some True
      else if s \<in> {''0'', ''f'', ''F'', ''FALSE'', ''false'', ''False''} then Some False
      else None)"

subsection \<open>projection.go: the parameter set\<close>

type_synonym paramset = "string \<rightharpoonup> string"

definition paramset_string :: "paramset \<Rightarrow> string \<Rightarrow> string \<times> bool" where
  "paramset_string p s = (case p s of None \<Rightarrow> ([], False) | Some v \<Rightarrow> (v, True))"

definition paramset_bool :: "paramset \<Rightarrow> string \<Rightarrow> bool \<times> bool" where
  "paramset_bool p s =
     (case p s of
        None \<Rightarrow> (False, False)
      | Some v \<Rightarrow>
          if v = [] then (True, True)
          else (case strconv_ParseBool v of
                  None \<Rightarrow> (False, False)
                | Some b \<Rightarrow> (b, True)))"

definition paramset_float :: "paramset \<Rightarrow> string \<Rightarrow> real \<times> bool" where
  "paramset_float p s =
     (case p s of
        None \<Rightarrow> (0, False)
      | Some v \<Rightarrow>
          (case strconv_ParseFloat v of
             None \<Rightarrow> (0, False)
           | Some f \<Rightarrow> (f, True)))"

text \<open>Each of the three steps parses a prefix of what is left and cuts it off.\<close>

definition parseDegreeString :: "string \<Rightarrow> real" where
  "parseDegreeString ds0 =
     (let idx = strings_Index ds0 CHR ''d'';
          (res, ds) =
             (if idx \<ge> 0 then
                (case strconv_ParseFloat (take (nat idx) ds0) of
                   None \<Rightarrow> 0 | Some f \<Rightarrow> 0 + f,
                 drop (nat idx + 1) ds0)
              else
                (case strconv_ParseFloat ds0 of None \<Rightarrow> 0 | Some f \<Rightarrow> f, ds0));
          idx = strings_Index ds CHR 0x27;
          (res, ds) =
             (if idx \<ge> 0 then
                (res + (case strconv_ParseFloat (take (nat idx) ds) of
                          None \<Rightarrow> 0 | Some f \<Rightarrow> f) / 60,
                 drop (nat idx + 1) ds)
              else (res, ds));
          idx = strings_Index ds CHR 0x22;
          (res, ds) =
             (if idx \<ge> 0 then
                (res + (case strconv_ParseFloat (take (nat idx) ds) of
                          None \<Rightarrow> 0 | Some f \<Rightarrow> f) / 360,
                 drop (nat idx + 1) ds)
              else (res, ds))
      in if strings_HasSuffix ds CHR ''W'' \<or> strings_HasSuffix ds CHR ''S''
         then res * (-1) else res)"

definition paramset_degree :: "paramset \<Rightarrow> string \<Rightarrow> real \<times> bool" where
  "paramset_degree p s =
     (case p s of
        None \<Rightarrow> (0, False)
      | Some v \<Rightarrow> (parseDegreeString v * d2r, True))"

definition keyVal :: "string \<Rightarrow> string \<times> string" where
  "keyVal s =
     (let defs = strings_Split s CHR ''=''
      in (hd defs, if length defs = 2 then defs ! 1 else []))"

subsection \<open>projection.go: the reference catalogs\<close>

text \<open>
  Go's struct types \<^verbatim>\<open>datum\<close>, \<^verbatim>\<open>ellipse\<close>, \<^verbatim>\<open>unit\<close> and
  \<^verbatim>\<open>prime_meridian\<close>, with the name of the type in front of each field; the record
  of \<^verbatim>\<open>unit\<close> is called \<open>linear_unit\<close>. The tables are the map literals of the
  source, entry by entry.
\<close>

record datum =
  datum_id :: string
  datum_definition :: string
  datum_ellipse :: string
  datum_comments :: string

record ellipse =
  ellipse_id :: string
  ellipse_major :: string
  ellipse_ell :: string
  ellipse_name :: string

record linear_unit =
  unit_id :: string
  unit_to_meter :: real
  unit_name :: string

record prime_meridian =
  pm_id :: string
  pm_defn :: string

definition datums_list :: "string \<rightharpoonup> datum" where
  "datums_list = map_of [
     (''WGS84'', datum.make ''WGS84'' ''towgs84=0,0,0''
        ''WGS84'' ''''),
     (''GGRS87'', datum.make ''GGRS87'' ''towgs84=-199.87,74.79,246.62''
        ''GRS80'' ''Greek_Geodetic_Reference_System_1987''),
     (''NAD83'', datum.make ''NAD83'' ''towgs84=0,0,0''
        ''GRS80'' ''North_American_Datum_1983''),
     (''NAD27'', datum.make ''NAD27'' ''nadgrids=@conus,@alaska,@ntv2_0.gsb,@ntv1_can.dat''
        ''clrk66'' ''North_American_Datum_1927''),
     (''potsdam'', datum.make ''potsdam'' ''towgs84=598.1,73.7,418.2,0.202,0.045,-2.455,6.7''
        ''bessel'' ''Potsdam Rauenberg 1950 DHDN''),
     (''carthage'', datum.make ''carthage'' ''towgs84=-263.0,6.0,431.0''
        ''clrk80ign'' ''Carthage 1934 Tunisia''),
     (''hermannskogel'', datum.make ''hermannskogel'' ''towgs84=577.326,90.129,463.919,5.137,1.474,5.297,2.4232''
        ''bessel'' ''Hermannskogel''),
     (''ire65'', datum.make ''ire65'' ''towgs84=482.530,-130.596,564.557,-1.042,-0.214,-0.631,8.15''
        ''mod_airy'' ''Ireland 1965''),
     (''nzgd49'', datum.make ''nzgd49'' ''towgs84=59.47,-5.04,187.44,0.47,-0.1,1.024,-4.5993''
        ''intl'' ''New Zealand Geodetic Datum 1949''),
     (''OSGB36'', datum.make ''OSGB36'' ''towgs84=446.448,-125.157,542.060,0.1502,0.2470,0.8421,-20.4894''
        ''airy'' ''Airy 1830'')]"

definition ellipse_list :: "string \<rightharpoonup> ellipse" where
  "ellipse_list = map_of [
     (''MERIT'', ellipse.make ''MERIT'' ''a=6378137.0'' ''rf=298.257''
        ''MERIT 1983''),
     (''SGS85'', ellipse.make ''SGS85'' ''a=6378136.0'' ''rf=298.257''
        ''Soviet Geodetic System 85''),
     (''GRS80'', ellipse.make ''GRS80'' ''a=6378137.0'' ''rf=298.257222101''
        ''GRS 1980(IUGG, 1980)''),
     (''IAU76'', ellipse.make ''IAU76'' ''a=6378140.0'' ''rf=298.257''
        ''IAU 1976''),
     (''airy'', ellipse.make ''airy'' ''a=6377563.396'' ''b=6356256.910''
        ''Airy 1830''),
     (''APL4.9'', ellipse.make ''APL4.9'' ''a=6378137.0.'' ''rf=298.25''
        ''Appl. Physics. 1965''),
     (''NWL9D'', ellipse.make ''NWL9D'' ''a=6378145.0.'' ''rf=298.25''
        ''Naval Weapons Lab., 1965''),
     (''mod_airy'', ellipse.make ''mod_airy'' ''a=6377340.189'' ''b=6356034.446''
        ''Modified Airy''),
     (''andrae'', ellipse.make ''andrae'' ''a=6377104.43'' ''rf=300.0''
        ''Andrae 1876 (Den., Iclnd.)''),
     (''aust_SA'', ellipse.make ''aust_SA'' ''a=6378160.0'' ''rf=298.25''
        ''Australian Natl & S. Amer. 1969''),
     (''GRS67'', ellipse.make ''GRS67'' ''a=6378160.0'' ''rf=298.2471674270''
        ''GRS 67(IUGG 1967)''),
     (''bessel'', ellipse.make ''bessel'' ''a=6377397.155'' ''rf=299.1528128''
        ''Bessel 1841''),
     (''bess_nam'', ellipse.make ''bess_nam'' ''a=6377483.865'' ''rf=299.1528128''
        ''Bessel 1841 (Namibia)''),
     (''clrk66'', ellipse.make ''clrk66'' ''a=6378206.4'' ''b=6356583.8''
        ''Clarke 1866''),
     (''clrk80'', ellipse.make ''clrk80'' ''a=6378249.145'' ''rf=293.4663''
        ''Clarke 1880 mod.''),
     (''clrk80ign'', ellipse.make ''clrk80ign'' ''a=6378249.2'' ''rf=293.4660212936269''
        ''Clarke 1880 (IGN).''),
     (''CPM'', ellipse.make ''CPM'' ''a=6375738.7'' ''rf=334.29''
        ''Comm. des Poids et Mesures 1799''),
     (''delmbr'', ellipse.make ''delmbr'' ''a=6376428.'' ''rf=311.5''
        ''Delambre 1810 (Belgium)''),
     (''engelis'', ellipse.make ''engelis'' ''a=6378136.05'' ''rf=298.2566''
        ''Engelis 1985''),
     (''evrst30'', ellipse.make ''evrst30'' ''a=6377276.345'' ''rf=300.8017''
        ''Everest 1830''),
     (''evrst48'', ellipse.make ''evrst48'' ''a=6377304.063'' ''rf=300.8017''
        ''Everest 1948''),
     (''evrst56'', ellipse.make ''evrst56'' ''a=6377301.243'' ''rf=300.8017''
        ''Everest 1956''),
     (''evrst69'', ellipse.make ''evrst69'' ''a=6377295.664'' ''rf=300.8017''
        ''Everest 1969''),
     (''evrstSS'', ellipse.make ''evrstSS'' ''a=6377298.556'' ''rf=300.8017''
        ''Everest (Sabah & Sarawak)''),
     (''fschr60'', ellipse.make ''fschr60'' ''a=6378166.'' ''rf=298.3''
        ''Fischer (Mercury Datum) 1960''),
     (''fschr60m'', ellipse.make ''fschr60m'' ''a=6378155.'' ''rf=298.3''
        ''Modified Fischer 1960''),
     (''fschr68'', ellipse.make ''fschr68'' ''a=6378150.'' ''rf=298.3''
        ''Fischer 1968''),
     (''helmert'', ellipse.make ''helmert'' ''a=6378200.'' ''rf=298.3''
        ''Helmert 1906''),
     (''hough'', ellipse.make ''hough'' ''a=6378270.0'' ''rf=297.''
        ''Hough''),
     (''intl'', ellipse.make ''intl'' ''a=6378388.0'' ''rf=297.''
        ''International 1909 (Hayford)''),
     (''krass'', ellipse.make ''krass'' ''a=6378245.0'' ''rf=298.3''
        ''Krassovsky, 1942''),
     (''kaula'', ellipse.make ''kaula'' ''a=6378163.'' ''rf=298.24''
        ''Kaula 1961''),
     (''lerch'', ellipse.make ''lerch'' ''a=6378139.'' ''rf=298.257''
        ''Lerch 1979''),
     (''mprts'', ellipse.make ''mprts'' ''a=6397300.'' ''rf=191.''
        ''Maupertius 1738''),
     (''new_intl'', ellipse.make ''new_intl'' ''a=6378157.5'' ''b=6356772.2''
        ''New International 1967''),
     (''plessis'', ellipse.make ''plessis'' ''a=6376523.'' ''b=6355863.''
        ''Plessis 1817 (France)''),
     (''SEasia'', ellipse.make ''SEasia'' ''a=6378155.0'' ''b=6356773.3205''
        ''Southeast Asia''),
     (''walbeck'', ellipse.make ''walbeck'' ''a=6376896.0'' ''b=6355834.8467''
        ''Walbeck''),
     (''WGS60'', ellipse.make ''WGS60'' ''a=6378165.0'' ''rf=298.3''
        ''WGS 60''),
     (''WGS66'', ellipse.make ''WGS66'' ''a=6378145.0'' ''rf=298.25''
        ''WGS 66''),
     (''WGS72'', ellipse.make ''WGS72'' ''a=6378135.0'' ''rf=298.26''
        ''WGS 72''),
     (''WGS84'', ellipse.make ''WGS84'' ''a=6378137.0'' ''rf=298.257223563''
        ''WGS 84''),
     (''sphere'', ellipse.make ''sphere'' ''a=6370997.0'' ''b=6370997.0''
        ''Normal Sphere (r=6370997)'')]"

definition units_list :: "string \<rightharpoonup> linear_unit" where
  "units_list = map_of [
     (''km'', linear_unit.make ''km'' 1000
        ''Kilometer''),
     (''m'', linear_unit.make ''m'' 1.0
        ''Meter''),
     (''dm'', linear_unit.make ''dm'' 0.1
        ''Decimeter''),
     (''cm'', linear_unit.make ''cm'' 0.01
        ''Centimeter''),
     (''mm'', linear_unit.make ''mm'' 0.001
        ''Millimeter''),
     (''kmi'', linear_unit.make ''kmi'' 1852.0
        ''International Nautical Mile''),
     (''in'', linear_unit.make ''in'' 0.0254
        ''International Inch''),
     (''ft'', linear_unit.make ''ft'' 0.3048
        ''International Foot''),
     (''yd'', linear_unit.make ''yd'' 0.9144
        ''International Yard''),
     (''mi'', linear_unit.make ''mi'' 1609.344
        ''International Statute Mile''),
     (''fath'', linear_unit.make ''fath'' 1.8288
        ''International Fathom''),
     (''ch'', linear_unit.make ''ch'' 20.1168
        ''International Chain''),
     (''link'', linear_unit.make ''link'' 0.201168
        ''International Link''),
     (''us-in'', linear_unit.make ''us-in'' 0.0254000508
        ''U.S. Surveyor's Inch''),
     (''us-ft'', linear_unit.make ''us-ft'' 0.304800609601219
        ''U.S. Surveyor's Foot''),
     (''us-yd'', linear_unit.make ''us-yd'' 0.914401828803658
        ''U.S. Surveyor's Yard''),
     (''us-ch'', linear_unit.make ''us-ch'' 20.11684023368047
        ''U.S. Surveyor's Chain''),
     (''us-mi'', linear_unit.make ''us-mi'' 1609.347218694437
        ''U.S. Surveyor's Statute Mile''),
     (''ind-yd'', linear_unit.make ''ind-yd'' 0.91439523
        ''Indian Yard''),
     (''ind-ft'', linear_unit.make ''ind-ft'' 0.30479841
        ''Indian Foot''),
     (''ind-ch'', linear_unit.make ''ind-ch'' 20.11669506
        ''Indian Chain'')]"

definition pm_list :: "string \<rightharpoonup> prime_meridian" where
  "pm_list = map_of [
     (''greenwich'', prime_meridian.make ''greenwich'' ''0dE''),
     (''lisbon'', prime_meridian.make ''lisbon'' ''9d07'54.862\"W''),
     (''paris'', prime_meridian.make ''paris'' ''2d20'14.025\"E''),
     (''bogota'', prime_meridian.make ''bogota'' ''74d04'51.3\"W''),
     (''madrid'', prime_meridian.make ''madrid'' ''3d41'16.58\"W''),
     (''rome'', prime_meridian.make ''rome'' ''12d27'8.4\"E''),
     (''bern'', prime_meridian.make ''bern'' ''7d26'22.5\"E''),
     (''jakarta'', prime_meridian.make ''jakarta'' ''106d48'27.79\"E''),
     (''ferro'', prime_meridian.make ''ferro'' ''17d40'W''),
     (''brussels'', prime_meridian.make ''brussels'' ''4d22'4.71\"E''),
     (''stockholm'', prime_meridian.make ''stockholm'' ''18d3'29.8\"E''),
     (''athens'', prime_meridian.make ''athens'' ''23d42'58.815\"E''),
     (''oslo'', prime_meridian.make ''oslo'' ''10d43'22.5\"E'')]"

subsection \<open>projection.go: the resolved configuration\<close>

text \<open>The struct \<^verbatim>\<open>pj\<close>; a \<^verbatim>\<open>nil\<close> slice \<^verbatim>\<open>datumParams\<close> is the empty list.\<close>

record pj =
  pj_proj :: string
  pj_axis :: string
  pj_datumType :: datumType
  pj_datumParams :: "real list"
  pj_catalogName :: string
  pj_a :: real
  pj_es :: real
  pj_e :: real
  pj_ra :: real
  pj_lam0 :: real
  pj_phi0 :: real
  pj_k0 :: real
  pj_x0 :: real
  pj_y0 :: real
  pj_oneEs :: real
  pj_rOneEs :: real
  pj_aOrig :: real
  pj_esOrig :: real
  pj_geoc :: bool
  pj_over :: bool
  pj_long_wrap_set :: bool
  pj_long_wrap_center :: real
  pj_to_meter :: real
  pj_fr_meter :: real
  pj_vto_meter :: real
  pj_vfr_meter :: real
  pj_from_greenwich :: real

text \<open>The zero value of \<^verbatim>\<open>pj\<close>, which \<^verbatim>\<open>&pj{axis: "enu"}\<close> starts from.\<close>

definition pj_zero :: pj where
  "pj_zero = \<lparr>pj_proj = [], pj_axis = [], pj_datumType = 0, pj_datumParams = [],
     pj_catalogName = [], pj_a = 0, pj_es = 0, pj_e = 0, pj_ra = 0, pj_lam0 = 0,
     pj_phi0 = 0, pj_k0 = 0, pj_x0 = 0, pj_y0 = 0, pj_oneEs = 0, pj_rOneEs = 0,
     pj_aOrig = 0, pj_esOrig = 0, pj_geoc = False, pj_over = False,
     pj_long_wrap_set = False, pj_long_wrap_center = 0, pj_to_meter = 0,
     pj_fr_meter = 0, pj_vto_meter = 0, pj_vfr_meter = 0, pj_from_greenwich = 0\<rparr>"

subsection \<open>projection.go: setDatum\<close>

text \<open>
  The loop \<^verbatim>\<open>for i, f := range parts { p.datumParams[i], _ = strconv.ParseFloat(f, 64) }\<close>
  over the slice made by \<^verbatim>\<open>make([]float64, 7)\<close>: a write at an index that is not
  below the length of the slice panics.
\<close>

fun setDatum_loop :: "string list \<Rightarrow> nat \<Rightarrow> real list \<Rightarrow> real list outcome" where
  "setDatum_loop [] i dp = Return dp"
| "setDatum_loop (f # fs) i dp =
     (if i < length dp
      then setDatum_loop fs (i + 1)
             (dp[i := (case strconv_ParseFloat f of None \<Rightarrow> 0 | Some v \<Rightarrow> v)])
      else Panic ''index out of range'')"

text \<open>
  \<^verbatim>\<open>setDatum\<close> writes into the parameter set it is given and into \<^verbatim>\<open>p\<close>; the
  model returns both. Its \<^verbatim>\<open>error\<close> result is always \<^verbatim>\<open>nil\<close>. The first
  block, lines 163 to 169, is \<open>setDatum_datum\<close>: what a \<^verbatim>\<open>datum\<close> name writes into
  the parameter set.
\<close>

definition setDatum_datum :: "paramset \<Rightarrow> paramset" where
  "setDatum_datum params0 =
     (let (name, ok) = paramset_string params0 ''datum'' in
      if ok then
        (case datums_list name of
           Some dat \<Rightarrow>
             (let params1 = params0(''ellps'' \<mapsto> datum_ellipse dat);
                  (key, val) = keyVal (datum_definition dat)
              in params1(key \<mapsto> val))
         | None \<Rightarrow> params0)
      else params0)"

definition setDatum :: "pj \<Rightarrow> paramset \<Rightarrow> (pj \<times> paramset) outcome" where
  "setDatum p params0 =
     (let params = setDatum_datum params0
      in if snd (paramset_string params ''nadgrids'') then
           Return (p\<lparr>pj_datumType := PJD_GRIDSHIFT\<rparr>, params)
         else
           (let (catalog, ok) = paramset_string params ''catalog'' in
            if ok then
              Return (p\<lparr>pj_datumType := PJD_GRIDSHIFT, pj_catalogName := catalog\<rparr>, params)
            else
              (let (towgs84, ok) = paramset_string params ''towgs84'' in
               if ok then
                 (let parts = strings_Split towgs84 CHR '','' in
                  case setDatum_loop parts 0 (replicate 7 0) of
                    Panic m \<Rightarrow> Panic m
                  | Return dp \<Rightarrow>
                      if length parts = 7 then
                        Return (p\<lparr>pj_datumParams :=
                                     dp[3 := dp ! 3 * sec2rad,
                                        4 := dp ! 4 * sec2rad,
                                        5 := dp ! 5 * sec2rad,
                                        6 := dp ! 6 / 1000000 + 1],
                                   pj_datumType := PJD_7PARAM\<rparr>, params)
                      else
                        Return (p\<lparr>pj_datumParams := dp, pj_datumType := PJD_3PARAM\<rparr>,
                                params))
               else Return (p, params))))"

subsection \<open>projection.go: setEllipse\<close>

text \<open>
  The chain that reads \<^verbatim>\<open>es\<close>, \<^verbatim>\<open>e\<close>, \<^verbatim>\<open>rf\<close>, \<^verbatim>\<open>f\<close> and \<^verbatim>\<open>b\<close>: the new
  \<^verbatim>\<open>p.es\<close> and the local \<^verbatim>\<open>b\<close>, which only the last branch assigns (also when
  \<^verbatim>\<open>b\<close> is absent: it is then \<open>0\<close>) and which is \<open>0\<close> on every other path.
\<close>

definition setEllipse_es :: "pj \<Rightarrow> paramset \<Rightarrow> real \<times> real" where
  "setEllipse_es p params =
     (let (es, ok) = paramset_float params ''es'' in
      if ok then (es, 0)
      else (let (e, ok) = paramset_float params ''e'' in
      if ok then (e * e, 0)
      else (let (rf, ok) = paramset_float params ''rf'' in
      if ok then (let es1 = 1 / rf in (es1 * (2 - es1), 0))
      else (let (f, ok) = paramset_float params ''f'' in
      if ok then (f * (2 - f), 0)
      else (let (b, ok) = paramset_float params ''b'' in
      if ok then (1 - (b * b) / (pj_a p * pj_a p), b)
      else (pj_es p, b))))))"

text \<open>The radius substitutions \<^verbatim>\<open>R_A\<close>, \<^verbatim>\<open>R_V\<close>, \<^verbatim>\<open>R_g\<close>, \<^verbatim>\<open>R_h\<close>.\<close>

definition setEllipse_radius :: "pj \<Rightarrow> paramset \<Rightarrow> real \<Rightarrow> pj" where
  "setEllipse_radius p params b =
     (let (ra, ok) = paramset_bool params ''R_A'' in
      if ra \<and> ok then
        p\<lparr>pj_a := pj_a p * (1 - pj_es p * (sixth + pj_es p * (ra4 + pj_es p * ra6))),
          pj_es := 0\<rparr>
      else (let (rv, ok) = paramset_bool params ''R_V'' in
      if rv \<and> ok then
        p\<lparr>pj_a := pj_a p * (1 - pj_es p * (sixth + pj_es p * (rv4 + pj_es p * rv6))),
          pj_es := 0\<rparr>
      else (let (rg, ok) = paramset_bool params ''R_g'' in
      if rg \<and> ok then p\<lparr>pj_a := sqrt (pj_a p * b), pj_es := 0\<rparr>
      else (let (rh, ok) = paramset_bool params ''R_h'' in
      if rh \<and> ok then p\<lparr>pj_a := 2 * pj_a p * b / (pj_a p + b), pj_es := 0\<rparr>
      else p))))"

text \<open>What \<^verbatim>\<open>setEllipse\<close> does with an \<^verbatim>\<open>ellps\<close> name: the two keys of the
  catalog entry are written only where the key is not set.\<close>

definition setEllipse_ellps :: "paramset \<Rightarrow> paramset" where
  "setEllipse_ellps params0 =
     (let (name, ok) = paramset_string params0 ''ellps'' in
      if ok then
        (case ellipse_list name of
           Some ellps \<Rightarrow>
             (let (key, val) = keyVal (ellipse_major ellps);
                  params1 = (if params0 key = None then params0(key \<mapsto> val) else params0);
                  (key, val) = keyVal (ellipse_ell ellps)
              in if params1 key = None then params1(key \<mapsto> val) else params1)
         | None \<Rightarrow> params0)
      else params0)"

definition setEllipse :: "pj \<Rightarrow> paramset \<Rightarrow> pj \<times> paramset" where
  "setEllipse p params0 =
     (let (r, ok) = paramset_float params0 ''R'' in
      if ok then (p\<lparr>pj_a := r\<rparr>, params0)
      else
        (let params = setEllipse_ellps params0;
             p1 = p\<lparr>pj_a := fst (paramset_float params ''a'')\<rparr>;
             (es, b0) = setEllipse_es p1 params;
             p2 = p1\<lparr>pj_es := es\<rparr>;
             b = (if b0 = 0 then pj_a p2 * sqrt (1 - pj_es p2) else b0)
         in (setEllipse_radius p2 params b, params)))"

subsection \<open>The kernels: structs and dispatch\<close>

text \<open>
  \<^verbatim>\<open>LngLat\<close> and \<^verbatim>\<open>Mercator\<close> hold only the embedded \<^verbatim>\<open>*pj\<close>; \<^verbatim>\<open>LCC\<close> and
  \<^verbatim>\<open>Equirectangular\<close> add fields of their own. A value of \<open>impl\<close> is one of the
  four pointers that \<^verbatim>\<open>lookupImpl\<close> returns, together with what it points to.
\<close>

record LCC_struct =
  lcc_pj :: pj
  lcc_c :: real
  lcc_n :: real
  lcc_rho0 :: real
  lcc_phi2 :: real
  lcc_phi1 :: real
  lcc_ellips :: bool

record Equirectangular_struct =
  eqc_pj :: pj
  eqc_phi1 :: real

datatype impl =
    LngLat pj
  | Mercator pj
  | LCC LCC_struct
  | Equirectangular Equirectangular_struct

fun impl_pj :: "impl \<Rightarrow> pj" where
  "impl_pj (LngLat p) = p"
| "impl_pj (Mercator p) = p"
| "impl_pj (LCC ll) = lcc_pj ll"
| "impl_pj (Equirectangular eqc) = eqc_pj eqc"

definition lookupImpl :: "pj \<Rightarrow> impl option" where
  "lookupImpl pin =
     (if pj_proj pin \<in> {''latlong'', ''longlat'', ''latlon'', ''lonlat''} then Some (LngLat pin)
      else if pj_proj pin = ''merc'' then Some (Mercator pin)
      else if pj_proj pin = ''lcc'' then
        Some (LCC \<lparr>lcc_pj = pin, lcc_c = 0, lcc_n = 0, lcc_rho0 = 0, lcc_phi2 = 0,
                    lcc_phi1 = 0, lcc_ellips = False\<rparr>)
      else if pj_proj pin = ''eqc'' then
        Some (Equirectangular \<lparr>eqc_pj = pin, eqc_phi1 = 0\<rparr>)
      else None)"

subsection \<open>The kernels: initializers\<close>

text \<open>Each \<^verbatim>\<open>init\<close> returns the struct as it leaves it and its \<^verbatim>\<open>error\<close> result.\<close>

definition LngLat_init :: "pj \<Rightarrow> paramset \<Rightarrow> pj \<times> error option" where
  "LngLat_init ll params = (ll\<lparr>pj_x0 := 0, pj_y0 := 0\<rparr>, None)"

definition Mercator_init :: "pj \<Rightarrow> paramset \<Rightarrow> pj \<times> error option" where
  "Mercator_init m params =
     (let (phits0, isPhits) = paramset_degree params ''lat_ts'';
          phits = (if isPhits then \<bar>phits0\<bar> else phits0)
      in if pj_e m \<noteq> 0 \<and> isPhits then
           (m\<lparr>pj_k0 := msfn (sin phits) (cos phits) (pj_es m)\<rparr>, None)
         else if isPhits then (m\<lparr>pj_k0 := cos phits\<rparr>, None)
         else (m, None))"

text \<open>The part of \<^verbatim>\<open>LCC.init\<close> after the test of the standard parallels.\<close>

definition LCC_init_consts :: "LCC_struct \<Rightarrow> LCC_struct" where
  "LCC_init_consts ll0 =
     (let sinphi = sin (lcc_phi1 ll0);
          ll1 = ll0\<lparr>lcc_n := sinphi\<rparr>;
          cosphi = cos (lcc_phi1 ll1);
          secant = (\<bar>lcc_phi1 ll1 - lcc_phi2 ll1\<bar> \<ge> epsln);
          ll2 = ll1\<lparr>lcc_ellips := (pj_es (lcc_pj ll1) \<noteq> 0)\<rparr>
      in if lcc_ellips ll2 then
           (let ll3 = ll2\<lparr>lcc_pj := (lcc_pj ll2)\<lparr>pj_e := sqrt (pj_es (lcc_pj ll2))\<rparr>\<rparr>;
                es = pj_es (lcc_pj ll3);
                e = pj_e (lcc_pj ll3);
                m1 = msfn sinphi cosphi es;
                ml1 = tsfn (lcc_phi1 ll3) sinphi e;
                ll4 = (if secant then
                         (let sinphi2 = sin (lcc_phi2 ll3);
                              n1 = ln (m1 / msfn sinphi2 (cos (lcc_phi2 ll3)) es)
                          in ll3\<lparr>lcc_n := n1 / ln (ml1 / tsfn (lcc_phi2 ll3) sinphi2 e)\<rparr>)
                       else ll3);
                ll5 = ll4\<lparr>lcc_c := m1 * (ml1 powr (- lcc_n ll4)) / lcc_n ll4\<rparr>;
                phi0 = pj_phi0 (lcc_pj ll5)
            in if \<bar>\<bar>phi0\<bar> - half_pi\<bar> < epsln then ll5\<lparr>lcc_rho0 := 0\<rparr>
               else ll5\<lparr>lcc_rho0 := lcc_c ll5 * (tsfn phi0 (sin phi0) e powr lcc_n ll5)\<rparr>)
         else
           (let ll4 = (if secant then
                         ll2\<lparr>lcc_n := ln (cosphi / cos (lcc_phi2 ll2)) /
                                       ln (tan (fort_pi + 0.5 * lcc_phi2 ll2) /
                                           tan (fort_pi + 0.5 * lcc_phi1 ll2))\<rparr>
                       else ll2);
                ll5 = ll4\<lparr>lcc_c := cosphi * (tan (fort_pi + 0.5 * lcc_phi1 ll4) powr lcc_n ll4)
                                     / lcc_n ll4\<rparr>;
                phi0 = pj_phi0 (lcc_pj ll5)
            in if \<bar>\<bar>phi0\<bar> - half_pi\<bar> < epsln then ll5\<lparr>lcc_rho0 := 0\<rparr>
               else ll5\<lparr>lcc_rho0 := lcc_c ll5 * (tan (fort_pi + 0.5 * phi0) powr (- lcc_n ll5))\<rparr>))"

definition LCC_init :: "LCC_struct \<Rightarrow> paramset \<Rightarrow> LCC_struct \<times> error option" where
  "LCC_init ll0 params =
     (let ll1 = ll0\<lparr>lcc_phi1 := fst (paramset_degree params ''lat_1'')\<rparr>;
          (phi2v, ok) = paramset_degree params ''lat_2'';
          ll2 = (if ok then ll1\<lparr>lcc_phi2 := phi2v\<rparr>
                 else (let ll = ll1\<lparr>lcc_phi2 := lcc_phi1 ll1\<rparr> in
                       if \<not> snd (paramset_string params ''lat_0'')
                       then ll\<lparr>lcc_pj := (lcc_pj ll)\<lparr>pj_phi0 := lcc_phi1 ll\<rparr>\<rparr>
                       else ll))
      in if \<bar>lcc_phi1 ll2 + lcc_phi2 ll2\<bar> \<le> epsln
         then (ll2, Some (errors_New ''these can't be the same''))
         else (LCC_init_consts ll2, None))"

definition Equirectangular_init ::
    "Equirectangular_struct \<Rightarrow> paramset \<Rightarrow> Equirectangular_struct \<times> error option" where
  "Equirectangular_init eqc params =
     (eqc\<lparr>eqc_phi1 := fst (paramset_degree params ''lat_1'')\<rparr>, None)"

text \<open>The method \<^verbatim>\<open>init\<close> of the interface \<^verbatim>\<open>impl\<close>.\<close>

fun init :: "impl \<Rightarrow> paramset \<Rightarrow> impl \<times> error option" where
  "init (LngLat ll) params = (let (ll', err) = LngLat_init ll params in (LngLat ll', err))"
| "init (Mercator m) params = (let (m', err) = Mercator_init m params in (Mercator m', err))"
| "init (LCC ll) params = (let (ll', err) = LCC_init ll params in (LCC ll', err))"
| "init (Equirectangular eqc) params =
     (let (eqc', err) = Equirectangular_init eqc params in (Equirectangular eqc', err))"

subsection \<open>projection.go: NewProjection\<close>

text \<open>The body of the loop over \<^verbatim>\<open>strings.Split(str, "+")\<close>.\<close>

definition NewProjection_part :: "paramset \<Rightarrow> string \<Rightarrow> paramset" where
  "NewProjection_part parms part =
     (let param = strings_TrimSpace part in
      if param = [] then parms
      else (let (key, val) = keyVal param in parms(key \<mapsto> val)))"

definition NewProjection_parms :: "string \<Rightarrow> paramset" where
  "NewProjection_parms str = foldl NewProjection_part Map.empty (strings_Split str CHR ''+'')"

text \<open>Lines 43 to 55: the derived ellipsoid quantities and the WGS84 alias.\<close>

definition NewProjection_derived :: "pj \<Rightarrow> pj" where
  "NewProjection_derived pin0 =
     (let pin1 = pin0\<lparr>pj_aOrig := pj_a pin0, pj_esOrig := pj_es pin0\<rparr>;
          pin2 = pin1\<lparr>pj_e := sqrt (pj_es pin1), pj_ra := 1 / pj_a pin1,
                       pj_oneEs := 1 - pj_es pin1\<rparr>;
          pin3 = pin2\<lparr>pj_rOneEs := 1 / pj_oneEs pin2\<rparr>
      in if pj_datumType pin3 = PJD_3PARAM \<and>
            (pj_datumParams pin3 = [] \<or>
             (pj_datumParams pin3 ! 0 = 0 \<and> pj_datumParams pin3 ! 1 = 0 \<and>
              pj_datumParams pin3 ! 2 = 0)) \<and>
            pj_a pin3 = 6378137.0 \<and> \<bar>pj_es pin3 - 0.006694379990\<bar> < 0.000000000050
         then pin3\<lparr>pj_datumType := PJD_WGS84\<rparr>
         else pin3)"

text \<open>Lines 57 to 63: \<^verbatim>\<open>geoc\<close>, \<^verbatim>\<open>over\<close> and \<^verbatim>\<open>lon_wrap\<close>.\<close>

definition NewProjection_flags :: "pj \<Rightarrow> paramset \<Rightarrow> pj" where
  "NewProjection_flags pin0 parms =
     (let pin1 = pin0\<lparr>pj_geoc := fst (paramset_bool parms ''geoc''),
                       pj_over := fst (paramset_bool parms ''over'')\<rparr>;
          (lwc, ok) = paramset_degree parms ''lon_wrap''
      in if ok then pin1\<lparr>pj_long_wrap_set := ok, pj_long_wrap_center := lwc\<rparr> else pin1)"

text \<open>Lines 73 to 80: central meridian and latitude, false easting and northing.\<close>

definition NewProjection_placement :: "pj \<Rightarrow> paramset \<Rightarrow> pj" where
  "NewProjection_placement pin parms =
     pin\<lparr>pj_lam0 := fst (paramset_degree parms ''lon_0''),
         pj_phi0 := fst (paramset_degree parms ''lat_0''),
         pj_x0 := fst (paramset_float parms ''x_0''),
         pj_y0 := fst (paramset_float parms ''y_0'')\<rparr>"

text \<open>Lines 82 to 89: the general scaling, before its test.\<close>

definition NewProjection_k0 :: "paramset \<Rightarrow> real" where
  "NewProjection_k0 parms =
     (let (k0, ok) = paramset_float parms ''k_0'' in
      if ok then k0
      else (let (k0, ok) = paramset_float parms ''k'' in
            if ok then k0 else 1))"

text \<open>Lines 94 to 109: the linear units. \<open>s\<close> is the local string of that name.\<close>

definition NewProjection_units :: "pj \<Rightarrow> paramset \<Rightarrow> pj" where
  "NewProjection_units pin0 parms =
     (let (name, ok) = paramset_string parms ''units'';
          (pin1, s) =
             (if ok then
                (case units_list name of
                   Some unit \<Rightarrow>
                     (pin0\<lparr>pj_to_meter := unit_to_meter unit,
                            pj_fr_meter := 1 / unit_to_meter unit\<rparr>, [])
                 | None \<Rightarrow> (pin0, []))
              else (pin0, fst (paramset_string parms ''to_meter'')))
      in if s \<noteq> [] then pin1
         else pin1\<lparr>pj_to_meter := 1, pj_fr_meter := 1\<rparr>)"

text \<open>Lines 110 to 125: the vertical units.\<close>

definition NewProjection_vunits :: "pj \<Rightarrow> paramset \<Rightarrow> pj" where
  "NewProjection_vunits pin0 parms =
     (let (name, ok) = paramset_string parms ''vunits'';
          (pin1, s) =
             (if ok then
                (case units_list name of
                   Some unit \<Rightarrow>
                     (pin0\<lparr>pj_to_meter := unit_to_meter unit,
                            pj_fr_meter := unit_to_meter unit\<rparr>, [])
                 | None \<Rightarrow> (pin0, []))
              else (pin0, fst (paramset_string parms ''vto_meter'')))
      in if s \<noteq> [] then pin1
         else pin1\<lparr>pj_vto_meter := pj_to_meter pin1, pj_vfr_meter := pj_fr_meter pin1\<rparr>)"

text \<open>Lines 127 to 132: the prime meridian.\<close>

definition NewProjection_pm :: "pj \<Rightarrow> paramset \<Rightarrow> pj" where
  "NewProjection_pm pin parms =
     (let (name, ok) = paramset_string parms ''pm'' in
      if ok then
        (case pm_list name of
           Some pm \<Rightarrow> pin\<lparr>pj_from_greenwich := parseDegreeString (pm_defn pm)\<rparr>
         | None \<Rightarrow> pin)
      else pin)"

text \<open>
  \<^verbatim>\<open>NewProjection\<close> returns \<^verbatim>\<open>(nil, err)\<close>, here \<open>Inl err\<close>, or
  \<^verbatim>\<open>(imp, nil)\<close>, here \<open>Inr imp\<close>. The last lines are
  \<^verbatim>\<open>imp.init(parms); return imp, nil\<close>: the result of \<^verbatim>\<open>init\<close> is not read.
\<close>

definition NewProjection :: "string \<Rightarrow> (error + impl) outcome" where
  "NewProjection str =
     (let parms0 = NewProjection_parms str;
          (prj, ok) = paramset_string parms0 ''proj'';
          pin0 = pj_zero\<lparr>pj_axis := ''enu'', pj_proj := prj\<rparr>
      in if \<not> ok then Return (Inl ErrUnsupportedProj)
         else
           (case setDatum pin0 parms0 of
              Panic m \<Rightarrow> Panic m
            | Return (pin1, parms1) \<Rightarrow>
                (let (pin2, parms) = setEllipse pin1 parms1;
                     pin3 = NewProjection_flags (NewProjection_derived pin2) parms;
                     (axis, ok) = paramset_string parms ''axis''
                 in if ok \<and> length axis \<noteq> 3 then Return (Inl ErrInvalidParam)
                    else
                      (let pin4 = (if ok then pin3\<lparr>pj_axis := axis\<rparr> else pin3);
                           pin5 = NewProjection_placement pin4 parms;
                           pin6 = pin5\<lparr>pj_k0 := NewProjection_k0 parms\<rparr>
                       in if pj_k0 pin6 \<le> 0 then Return (Inl ErrInvalidParam)
                          else
                            (let pin7 = NewProjection_units pin6 parms;
                                 pin8 = NewProjection_vunits pin7 parms;
                                 pin = NewProjection_pm pin8 parms
                             in case lookupImpl pin of
                                  Some imp \<Rightarrow> Return (Inr (fst (init imp parms)))
                                | None \<Rightarrow> Return (Inl ErrUnsupportedProj))))))"

subsection \<open>projection.go: the shared forward and inverse pipelines\<close>

text \<open>
  A \<^verbatim>\<open>translator\<close> returns \<^verbatim>\<open>(float64, float64, error)\<close>. Both pipelines read the
  two numbers only when the error is \<^verbatim>\<open>nil\<close>, so the model of a translator returns
  the error or the two numbers; \<^verbatim>\<open>LCC.inv\<close> panics instead of returning.
\<close>

type_synonym translator = "real \<Rightarrow> real \<Rightarrow> (error + real \<times> real) outcome"

text \<open>\<^verbatim>\<open>math.Copysign\<close> on a number that is not a zero.\<close>

definition math_Copysign :: "real \<Rightarrow> real \<Rightarrow> real" where
  "math_Copysign x y = (if y < 0 then - \<bar>x\<bar> else \<bar>x\<bar>)"

definition commonFwd ::
    "pj \<Rightarrow> real \<Rightarrow> real \<Rightarrow> translator \<Rightarrow> (coord \<times> coord \<times> error option) outcome" where
  "commonFwd p lam0 phi0 tr =
     (let t = \<bar>phi0\<bar> - half_pi in
      if t > epsln \<or> \<bar>lam0\<bar> > 10 then
        Return (hugeVal, hugeVal, Some (errors_New ''this is way out of bounds''))
      else
        (let phi = (if \<bar>t\<bar> \<le> epsln then math_Copysign half_pi phi0
                    else if pj_geoc p then arctan (pj_rOneEs p * tan phi0)
                    else phi0);
             lam1 = lam0 - pj_lam0 p;
             lam = (if \<not> pj_over p then adjLng lam1 else lam1)
         in case tr lam phi of
              Panic m \<Rightarrow> Panic m
            | Return (Inl err) \<Rightarrow> Return (hugeVal, hugeVal, Some err)
            | Return (Inr (x, y)) \<Rightarrow>
                Return (Num (pj_fr_meter p * (pj_a p * x + pj_x0 p)),
                        Num (pj_fr_meter p * (pj_a p * y + pj_y0 p)), None)))"

text \<open>
  In \<^verbatim>\<open>commonInv\<close> the statements \<^verbatim>\<open>y += p.lam0\<close> and \<^verbatim>\<open>x = adjLng(x)\<close> after
  the call of the translator assign to the parameters \<^verbatim>\<open>x\<close> and \<^verbatim>\<open>y\<close>, which are
  not results; they are \<open>y2\<close> and \<open>x2\<close> here.
\<close>

definition commonInv ::
    "pj \<Rightarrow> coord \<Rightarrow> coord \<Rightarrow> translator \<Rightarrow> (coord \<times> coord \<times> error option) outcome" where
  "commonInv p cx cy tr =
     (case (cx, cy) of
        (Num x0, Num y0) \<Rightarrow>
          (let x1 = (x0 * pj_to_meter p - pj_x0 p) * pj_ra p;
               y1 = (y0 * pj_to_meter p - pj_y0 p) * pj_ra p
           in case tr x1 y1 of
                Panic m \<Rightarrow> Panic m
              | Return (Inl err) \<Rightarrow> Return (hugeVal, hugeVal, Some err)
              | Return (Inr (lam, phi0)) \<Rightarrow>
                  (let y2 = y1 + pj_lam0 p;
                       x2 = (if \<not> pj_over p then adjLng x1 else x1);
                       phi = (if pj_geoc p \<and> \<bar>\<bar>phi0\<bar> - half_pi\<bar> > epsln
                              then arctan (pj_oneEs p * tan phi0) else phi0)
                   in Return (Num lam, Num phi, None)))
      | _ \<Rightarrow> Return (hugeVal, hugeVal, Some (errors_New ''this is way out of bounds'')))"

subsection \<open>The kernels: forward and inverse\<close>

definition LngLat_fwd :: "pj \<Rightarrow> translator" where
  "LngLat_fwd ll lam phi = Return (Inr (lam / pj_a ll, phi / pj_a ll))"

definition LngLat_inv :: "pj \<Rightarrow> translator" where
  "LngLat_inv ll x y = Return (Inr (x * pj_a ll, y * pj_a ll))"

definition Mercator_fwd :: "pj \<Rightarrow> translator" where
  "Mercator_fwd m lam phi =
     (if pj_es m \<noteq> 0 then
        Return (Inr (pj_k0 m * lam, - pj_k0 m * ln (tsfn phi (sin phi) (pj_e m))))
      else
        Return (Inr (pj_k0 m * lam, pj_k0 m * ln (tan (fort_pi + 0.5 * phi)))))"

text \<open>
  In the first branch the call is \<^verbatim>\<open>phi2(math.Exp(-y/m.k0), m.e)\<close>, for the function
  declared as \<^verbatim>\<open>phi2(e, ts float64)\<close>.
\<close>

definition Mercator_inv :: "pj \<Rightarrow> translator" where
  "Mercator_inv m x y =
     (if pj_es m \<noteq> 0 then
        (case phi2 (exp (- y / pj_k0 m)) (pj_e m) of
           Inl err \<Rightarrow> Return (Inl err)
         | Inr lat \<Rightarrow> Return (Inr (x * pj_k0 m, lat)))
      else
        Return (Inr (x / pj_k0 m, half_pi - 2 * arctan (exp (- y / pj_k0 m)))))"

definition LCC_fwd :: "LCC_struct \<Rightarrow> translator" where
  "LCC_fwd ll lam0 phi =
     (if \<bar>\<bar>phi\<bar> - half_pi\<bar> < epsln \<and> phi * lcc_n ll \<le> 0 then
        Return (Inl (errors_New ''something''))
      else
        (let rho = (if \<bar>\<bar>phi\<bar> - half_pi\<bar> < epsln then 0
                    else if lcc_ellips ll then
                      lcc_c ll * (tsfn phi (sin phi) (pj_e (lcc_pj ll)) powr lcc_n ll)
                    else lcc_c ll * (tan (fort_pi + 0.5 * phi) powr (- lcc_n ll)));
             lam = lam0 * lcc_n ll;
             k0 = pj_k0 (lcc_pj ll)
         in Return (Inr (k0 * (rho * sin lam), k0 * (lcc_rho0 ll - rho * cos lam)))))"

definition LCC_inv :: "LCC_struct \<Rightarrow> translator" where
  "LCC_inv ll x y = Panic ''don't call this''"

definition Equirectangular_fwd :: "Equirectangular_struct \<Rightarrow> translator" where
  "Equirectangular_fwd eqc lam phi =
     Return (Inr (lam / pj_a (eqc_pj eqc), phi / pj_a (eqc_pj eqc)))"

definition Equirectangular_inv :: "Equirectangular_struct \<Rightarrow> translator" where
  "Equirectangular_inv eqc x y =
     Return (Inr (x * cos (eqc_phi1 eqc) * pj_a (eqc_pj eqc), y * pj_a (eqc_pj eqc)))"

subsection \<open>The interface Projection\<close>

fun Forward :: "impl \<Rightarrow> real \<Rightarrow> real \<Rightarrow> (coord \<times> coord \<times> error option) outcome" where
  "Forward (LngLat ll) lng lat = commonFwd ll lng lat (LngLat_fwd ll)"
| "Forward (Mercator m) lng lat = commonFwd m lng lat (Mercator_fwd m)"
| "Forward (LCC ll) lng lat = commonFwd (lcc_pj ll) lng lat (LCC_fwd ll)"
| "Forward (Equirectangular eqc) lng lat =
     commonFwd (eqc_pj eqc) lng lat (Equirectangular_fwd eqc)"

fun Inverse :: "impl \<Rightarrow> coord \<Rightarrow> coord \<Rightarrow> (coord \<times> coord \<times> error option) outcome" where
  "Inverse (LngLat ll) x y = commonInv ll x y (LngLat_inv ll)"
| "Inverse (Mercator m) x y = commonInv m x y (Mercator_inv m)"
| "Inverse (LCC ll) x y = commonInv (lcc_pj ll) x y (LCC_inv ll)"
| "Inverse (Equirectangular eqc) x y =
     commonInv (eqc_pj eqc) x y (Equirectangular_inv eqc)"

fun IsLngLat :: "impl \<Rightarrow> bool" where
  "IsLngLat (LngLat ll) = True"
| "IsLngLat (Mercator m) = True"
| "IsLngLat (LCC ll) = False"
| "IsLngLat (Equirectangular eqc) = False"

definition ToMeter :: "impl \<Rightarrow> real" where
  "ToMeter imp = pj_to_meter (impl_pj imp)"

definition FromGreenwich :: "impl \<Rightarrow> real" where
  "FromGreenwich imp = pj_from_greenwich (impl_pj imp)"

definition Radius :: "impl \<Rightarrow> real" where
  "Radius imp = pj_a (impl_pj imp)"

subsection \<open>Definition strings in plain notation\<close>



section \<open>Properties\<close>

subsection \<open>Evaluation at concrete definitions\<close>

text \<open>The defining equations that the simplifier unfolds to run the model on a
  concrete definition string.\<close>

lemma replicate_7: "replicate 7 x = [x, x, x, x, x, x, x]"
  by (simp add: eval_nat_numeral)

lemmas parse_defs = strconv_ParseFloat_def readSign_def isDigit_def digitsVal_def
  readExponent_def strconv_ParseBool_def strings_HasSuffix_def parseDegreeString_def
lemmas paramset_defs = paramset_string_def paramset_bool_def paramset_float_def
  paramset_degree_def keyVal_def
lemmas parms_defs = NewProjection_parms_def NewProjection_part_def strings_TrimSpace_def
  isSpace_def
lemmas const_defs = PJD_UNKNOWN_def PJD_GRIDSHIFT_def PJD_7PARAM_def PJD_3PARAM_def
  PJD_WGS84_def sixth_def ra4_def ra6_def rv4_def rv6_def pj_zero_def
lemmas resolve_defs = setDatum_def setDatum_datum_def setEllipse_def setEllipse_ellps_def
  setEllipse_es_def setEllipse_radius_def NewProjection_derived_def NewProjection_flags_def
  NewProjection_placement_def NewProjection_k0_def NewProjection_units_def
  NewProjection_vunits_def NewProjection_pm_def lookupImpl_def
lemmas catalog_defs = datums_list_def ellipse_list_def units_list_def pm_list_def datum.defs
  ellipse.defs linear_unit.defs prime_meridian.defs
lemmas eval_defs = replicate_7 NewProjection_def parms_defs paramset_defs parse_defs
  const_defs resolve_defs catalog_defs

subsection \<open>Bounds on pi\<close>

text \<open>
  The partial sums of the series of \<^term>\<open>arctan\<close> enclose it, and Machin's formula
  turns two of them into a bound on \<^term>\<open>pi\<close> that separates it from the rounded
  constant \<^verbatim>\<open>s_pi\<close>.
\<close>

lemma arctan_series_bounds:
  fixes x :: real
  assumes "0 < x" "x \<le> 1"
  shows "(\<Sum>i<2*n. (- 1)^i * (1 / real (i * 2 + 1) * x ^ (i * 2 + 1))) \<le> arctan x"
    and "arctan x \<le> (\<Sum>i<2*n+1. (- 1)^i * (1 / real (i * 2 + 1) * x ^ (i * 2 + 1)))"
proof -
  have ax: "\<bar>x\<bar> \<le> 1" using assms by simp
  have pos: "0 < 1 / real (0 * 2 + 1) * x ^ (0 * 2 + 1)" using assms by simp
  note L = summable_Leibniz(2)[OF zeroseq_arctan_series[OF ax] monoseq_arctan_series[OF ax],
      rule_format, OF pos, of n]
  show "(\<Sum>i<2*n. (- 1)^i * (1 / real (i * 2 + 1) * x ^ (i * 2 + 1))) \<le> arctan x"
    using L unfolding arctan_series[OF ax] by simp
  show "arctan x \<le> (\<Sum>i<2*n+1. (- 1)^i * (1 / real (i * 2 + 1) * x ^ (i * 2 + 1)))"
    using L unfolding arctan_series[OF ax] by simp
qed

lemma arctan5_upper:
  "arctan (1/5) \<le> (\<Sum>i<9. (- 1)^i * (1 / real (i * 2 + 1) * (1/5) ^ (i * 2 + 1)))"
  using arctan_series_bounds(2)[of "1/5" 4] by simp

lemma arctan239_lower:
  "(\<Sum>i<4. (- 1)^i * (1 / real (i * 2 + 1) * (1/239) ^ (i * 2 + 1))) \<le> arctan (1/239)"
  using arctan_series_bounds(1)[of "1/239" 2] by simp

lemma pi_less_decimal: "pi < 3.14159265359"
proof -
  have "pi = 16 * arctan (1/5) - 4 * arctan (1/239)" using machin by simp
  also have "\<dots> \<le> 16 * (\<Sum>i<9. (- 1)^i * (1 / real (i * 2 + 1) * (1/5) ^ (i * 2 + 1)))
     - 4 * (\<Sum>i<4. (- 1)^i * (1 / real (i * 2 + 1) * (1/239) ^ (i * 2 + 1)))"
    using arctan5_upper arctan239_lower by linarith
  also have "\<dots> < 3.14159265359"
    by (simp add: eval_nat_numeral)
  finally show ?thesis .
qed

lemma pi_less_s_pi: "pi < s_pi"
  using pi_less_decimal by (simp add: s_pi_def)

subsection \<open>Longitude normalization\<close>



lemma adjLng_near: "\<bar>x\<bar> \<le> s_pi \<Longrightarrow> adjLng x = x"
  by (simp add: adjLng_def)





subsection \<open>The out-of-range sentinel\<close>

lemma commonFwd_reject:
  "\<bar>phi\<bar> - half_pi > epsln \<or> \<bar>lam\<bar> > 10 \<Longrightarrow>
   commonFwd p lam phi tr =
     Return (hugeVal, hugeVal, Some (errors_New ''this is way out of bounds''))"
  by (simp add: commonFwd_def)

lemma commonInv_huge:
  "cx = hugeVal \<or> cy = hugeVal \<Longrightarrow>
   commonInv p cx cy tr =
     Return (hugeVal, hugeVal, Some (errors_New ''this is way out of bounds''))"
  by (auto simp: commonInv_def split: coord.splits)

lemma Forward_reject:
  "\<bar>phi\<bar> - half_pi > epsln \<or> \<bar>lam\<bar> > 10 \<Longrightarrow>
   Forward imp lam phi =
     Return (hugeVal, hugeVal, Some (errors_New ''this is way out of bounds''))"
  by (cases imp) (simp_all add: commonFwd_reject)

lemma Inverse_huge:
  "cx = hugeVal \<or> cy = hugeVal \<Longrightarrow>
   Inverse imp cx cy =
     Return (hugeVal, hugeVal, Some (errors_New ''this is way out of bounds''))"
  by (cases imp) (simp_all add: commonInv_huge)

lemma commonFwd_error_huge:
  "commonFwd p lon lat tr = Return (x, y, Some e) \<Longrightarrow> x = hugeVal \<and> y = hugeVal"
  by (auto simp: commonFwd_def Let_def split: if_splits outcome.splits sum.splits prod.splits)

lemma Forward_error_huge:
  "Forward imp lon lat = Return (x, y, Some e) \<Longrightarrow> x = hugeVal \<and> y = hugeVal"
  by (cases imp) (auto dest: commonFwd_error_huge)

text \<open>
  C6. With any configuration and any kernel, the forward pipeline returns the pair
  of sentinels and the out-of-range error as soon as \<open>|lat| - \<pi>/2 > epsln\<close> or
  \<open>|lon| > 10\<close>; the inverse pipeline returns the same as soon as one of its two
  inputs is the sentinel, before it calls the kernel; so for every projection handle
  \<^verbatim>\<open>Inverse\<close> applied to what \<^verbatim>\<open>Forward\<close> returned for such an input fails too,
  and so it does for what \<^verbatim>\<open>Forward\<close> returned with any error.
\<close>

theorem out_of_range_sentinel:
  "(\<bar>lat\<bar> - half_pi > epsln \<or> \<bar>lon\<bar> > 10 \<longrightarrow>
      commonFwd p lon lat tr =
        Return (hugeVal, hugeVal, Some (errors_New ''this is way out of bounds'')) \<and>
      Forward imp lon lat =
        Return (hugeVal, hugeVal, Some (errors_New ''this is way out of bounds''))) \<and>
   (cx = hugeVal \<or> cy = hugeVal \<longrightarrow>
      commonInv p cx cy tr =
        Return (hugeVal, hugeVal, Some (errors_New ''this is way out of bounds'')) \<and>
      Inverse imp cx cy =
        Return (hugeVal, hugeVal, Some (errors_New ''this is way out of bounds''))) \<and>
   (\<bar>lat\<bar> - half_pi > epsln \<or> \<bar>lon\<bar> > 10 \<longrightarrow>
      (case Forward imp lon lat of
         Panic m \<Rightarrow> False
       | Return (x, y, err) \<Rightarrow>
           err \<noteq> None \<and>
           Inverse imp x y =
             Return (hugeVal, hugeVal, Some (errors_New ''this is way out of bounds'')))) \<and>
   (Forward imp lon lat = Return (fx, fy, Some e) \<longrightarrow>
      Inverse imp fx fy =
        Return (hugeVal, hugeVal, Some (errors_New ''this is way out of bounds'')))"
proof -
  have "Inverse imp fx fy =
      Return (hugeVal, hugeVal, Some (errors_New ''this is way out of bounds''))"
    if "Forward imp lon lat = Return (fx, fy, Some e)"
    using Forward_error_huge[OF that] by (simp add: Inverse_huge)
  then show ?thesis
    by (simp add: commonFwd_reject Forward_reject commonInv_huge Inverse_huge)
qed

theorem out_of_range_sentinel_witness:
  "\<bar>3 :: real\<bar> - half_pi > epsln \<and> \<bar>11 :: real\<bar> > 10 \<and>
   commonFwd pj_zero 11 3 (LngLat_fwd pj_zero) =
     Return (hugeVal, hugeVal, Some (errors_New ''this is way out of bounds'')) \<and>
   Forward (Mercator pj_zero) 11 3 =
     Return (hugeVal, hugeVal, Some (errors_New ''this is way out of bounds'')) \<and>
   commonInv pj_zero hugeVal (Num 0) (LngLat_fwd pj_zero) =
     Return (hugeVal, hugeVal, Some (errors_New ''this is way out of bounds'')) \<and>
   Inverse (Mercator pj_zero) hugeVal (Num 0) =
     Return (hugeVal, hugeVal, Some (errors_New ''this is way out of bounds'')) \<and>
   Inverse (Mercator pj_zero) hugeVal hugeVal =
     Return (hugeVal, hugeVal, Some (errors_New ''this is way out of bounds''))"
proof -
  have h1: "\<bar>3 :: real\<bar> - half_pi > epsln"
    using pi_less_4 by (simp add: half_pi_def epsln_def)
  have h2: "\<bar>11 :: real\<bar> > 10" by simp
  have h3: "hugeVal = hugeVal \<or> Num 0 = hugeVal" by simp
  note T = out_of_range_sentinel[of 3 11 pj_zero "LngLat_fwd pj_zero" "Mercator pj_zero"
      hugeVal "Num 0" hugeVal hugeVal "errors_New ''this is way out of bounds''"]
  from T h1 h2 have f:
    "commonFwd pj_zero 11 3 (LngLat_fwd pj_zero) =
       Return (hugeVal, hugeVal, Some (errors_New ''this is way out of bounds''))"
    "Forward (Mercator pj_zero) 11 3 =
       Return (hugeVal, hugeVal, Some (errors_New ''this is way out of bounds''))"
    by blast+
  from T h3 have i:
    "commonInv pj_zero hugeVal (Num 0) (LngLat_fwd pj_zero) =
       Return (hugeVal, hugeVal, Some (errors_New ''this is way out of bounds''))"
    "Inverse (Mercator pj_zero) hugeVal (Num 0) =
       Return (hugeVal, hugeVal, Some (errors_New ''this is way out of bounds''))"
    by blast+
  from T f(2) have j:
    "Inverse (Mercator pj_zero) hugeVal hugeVal =
       Return (hugeVal, hugeVal, Some (errors_New ''this is way out of bounds''))"
    by blast
  from h1 h2 f i j show ?thesis by blast
qed

subsection \<open>Units\<close>

text \<open>
  Whenever the key \<^verbatim>\<open>units\<close> is present, the local string \<^verbatim>\<open>s\<close> stays empty, so the
  \<^verbatim>\<open>else\<close> branch of the test \<^verbatim>\<open>s != ""\<close> runs after the catalog value was stored.
\<close>

lemma NewProjection_units_present:
  "parms ''units'' = Some name \<Longrightarrow>
   pj_to_meter (NewProjection_units pin parms) = 1 \<and>
   pj_fr_meter (NewProjection_units pin parms) = 1"
  by (simp add: NewProjection_units_def paramset_string_def split: option.splits)

text \<open>
  C3 at the definition \<^verbatim>\<open>+proj=longlat +ellps=WGS84 +units=km\<close>. The catalog has
  \<^verbatim>\<open>km\<close> with 1000 meters per unit; the projection is constructed and its
  \<^verbatim>\<open>ToMeter()\<close> is 1.
\<close>

theorem NewProjection_units_km:
  "\<exists>imp. NewProjection ''+proj=longlat +ellps=WGS84 +units=km'' = Return (Inr imp) \<and>
     ToMeter imp = 1 \<and> pj_fr_meter (impl_pj imp) = 1 \<and>
     map_option unit_to_meter (units_list ''km'') = Some 1000"
  by (simp add: eval_defs LngLat_init_def ToMeter_def)

subsection \<open>Lambert Conformal Conic with degenerate parallels\<close>

text \<open>
  C2 at the definition \<^verbatim>\<open>+proj=lcc +ellps=WGS84 +lat_1=18 +lat_2=-18\<close>.
  \<^verbatim>\<open>NewProjection\<close> returns a handle and no error; the handle holds the two parallels
  and the zero values of \<^verbatim>\<open>n\<close>, \<^verbatim>\<open>c\<close> and \<^verbatim>\<open>rho0\<close>; and \<^verbatim>\<open>LCC.init\<close> on these
  parameters does return its error.
\<close>

theorem NewProjection_LCC_degenerate:
  "\<exists>ll. NewProjection ''+proj=lcc +ellps=WGS84 +lat_1=18 +lat_2=-18'' = Return (Inr (LCC ll)) \<and>
     lcc_phi1 ll = 18 * d2r \<and> lcc_phi2 ll = - 18 * d2r \<and>
     lcc_n ll = 0 \<and> lcc_c ll = 0 \<and> lcc_rho0 ll = 0 \<and>
     snd (LCC_init ll (NewProjection_parms ''+proj=lcc +ellps=WGS84 +lat_1=18 +lat_2=-18'')) =
       Some (errors_New ''these can't be the same'')"
  by (simp add: eval_defs LCC_init_def epsln_def)

subsection \<open>Datum defaults\<close>

text \<open>
  C5 at a parameter set with \<^verbatim>\<open>datum=WGS84\<close>, \<^verbatim>\<open>ellps=bessel\<close> and
  \<^verbatim>\<open>towgs84=1,2,3\<close>. \<^verbatim>\<open>setDatum\<close> replaces the explicit \<^verbatim>\<open>ellps\<close> and
  \<^verbatim>\<open>towgs84\<close> by those of the datum, and the projection constructed from
  \<^verbatim>\<open>+proj=longlat +datum=WGS84 +ellps=bessel +towgs84=1,2,3\<close> has the radius of
  WGS84 (Bessel's is 6377397.155) and a zero shift vector.
\<close>

theorem setDatum_overwrites:
  "(\<exists>p params.
      setDatum pj_zero [''datum'' \<mapsto> ''WGS84'', ''ellps'' \<mapsto> ''bessel'', ''towgs84'' \<mapsto> ''1,2,3''] =
        Return (p, params) \<and>
      params ''ellps'' = Some ''WGS84'' \<and> params ''towgs84'' = Some ''0,0,0'') \<and>
   (\<exists>imp. NewProjection ''+proj=longlat +datum=WGS84 +ellps=bessel +towgs84=1,2,3'' =
        Return (Inr imp) \<and>
      Radius imp = 6378137 \<and> pj_datumParams (impl_pj imp) = [0, 0, 0, 0, 0, 0, 0])"
  by (simp add: eval_defs LngLat_init_def Radius_def)

subsection \<open>Angles in degrees, minutes and seconds\<close>

text \<open>
  C9 at the value \<^verbatim>\<open>1d30'36"\<close>. \<^verbatim>\<open>degree\<close> returns \<open>(1 + 30/60 + 36/360) \<sqdot> \<pi>/180\<close>,
  which is not \<open>(1 + 30/60 + 36/3600) \<sqdot> \<pi>/180\<close>: the seconds are divided by 360.
\<close>

theorem paramset_degree_seconds:
  "paramset_degree [''lon_0'' \<mapsto> ''1d30'36\"''] ''lon_0'' =
     ((1 + 30 / 60 + 36 / 360) * (pi / 180), True) \<and>
   (1 + 30 / 60 + 36 / 360) * (pi / 180) \<noteq> (1 + 30 / 60 + 36 / 3600) * (pi / 180)"
  by (simp add: paramset_defs parse_defs d2r_def)

subsection \<open>The shift vector\<close>

text \<open>The loop of \<^verbatim>\<open>setDatum\<close> returns when there are at most as many values as
  places, and panics otherwise.\<close>

lemma setDatum_loop_fits:
  "i + length parts \<le> length dp \<Longrightarrow> \<exists>dp'. setDatum_loop parts i dp = Return dp'"
  by (induction parts i dp rule: setDatum_loop.induct) simp_all

lemma setDatum_loop_overflow:
  "i \<le> length dp \<Longrightarrow> length dp < i + length parts \<Longrightarrow>
   setDatum_loop parts i dp = Panic ''index out of range''"
proof (induction parts i dp rule: setDatum_loop.induct)
  case (1 i dp)
  then show ?case by simp
next
  case (2 f fs i dp)
  then show ?case by (cases "i < length dp") simp_all
qed

text \<open>
  C10 at the definition \<^verbatim>\<open>+proj=longlat +ellps=WGS84 +towgs84=1,2,3,4,5,6,7,8\<close>:
  the eighth value is written at index 7 of a slice of length 7, and the call
  panics. The tags of the two parametric shift kinds are the same number.
\<close>

theorem NewProjection_towgs84_eight:
  "NewProjection ''+proj=longlat +ellps=WGS84 +towgs84=1,2,3,4,5,6,7,8'' =
     Panic ''index out of range'' \<and>
   setDatum pj_zero [''towgs84'' \<mapsto> ''1,2,3,4,5,6,7,8''] = Panic ''index out of range'' \<and>
   PJD_7PARAM = PJD_3PARAM"
  by (simp add: eval_defs)

subsection \<open>The Geographic kernel\<close>

text \<open>
  With no central meridian, no geocentric latitude, unit factors 1 and a semi-major
  axis that is not zero, the Geographic kernel does round-trip every longitude in
  \<open>(-\<pi>, \<pi>]\<close> exactly and every latitude in \<open>(-\<pi>/2, \<pi>/2)\<close> up to the snap to the
  pole, which moves it by at most \<open>epsln\<close>.
\<close>

lemma LngLat_roundtrip_lam0_zero:
  assumes p: "pj_a p \<noteq> 0" "pj_ra p = 1 / pj_a p" "pj_lam0 p = 0" "pj_x0 p = 0" "pj_y0 p = 0"
      "pj_to_meter p = 1" "pj_fr_meter p = 1" "\<not> pj_geoc p"
    and lon: "- pi < lon" "lon \<le> pi" and lat: "- half_pi < lat" "lat < half_pi"
  shows "\<exists>x y lat'. Forward (LngLat p) lon lat = Return (Num x, Num y, None) \<and>
           Inverse (LngLat p) (Num x) (Num y) = Return (Num lon, Num lat', None) \<and>
           \<bar>lat' - lat\<bar> \<le> epsln"
proof -
  have al: "adjLng lon = lon" using lon pi_less_s_pi by (simp add: adjLng_near)
  have l10: "\<not> \<bar>lon\<bar> > 10" using lon pi_less_4 by simp
  define t where "t = \<bar>lat\<bar> - half_pi"
  have t: "\<not> t > epsln" using lat by (simp add: t_def epsln_def)
  define phi where "phi = (if \<bar>t\<bar> \<le> epsln then math_Copysign half_pi lat else lat)"
  have fwd: "Forward (LngLat p) lon lat = Return (Num lon, Num phi, None)"
    unfolding Forward.simps commonFwd_def Let_def t_def[symmetric] phi_def
    using t l10 by (auto simp add: LngLat_fwd_def p al)
  have inv: "Inverse (LngLat p) (Num lon) (Num phi) = Return (Num lon, Num phi, None)"
    by (simp add: commonInv_def LngLat_inv_def p Let_def)
  have "\<bar>phi - lat\<bar> \<le> epsln"
    using lat unfolding phi_def t_def math_Copysign_def
    by (auto simp: epsln_def split: if_splits)
  with fwd inv show ?thesis by blast
qed

text \<open>
  The scenario of the test \<^verbatim>\<open>TestProjString\<close>: with no central meridian the pair
  (18.5\<degree>, 54.2\<degree>) goes forward and back unchanged.
\<close>

lemma LngLat_scenario:
  "\<exists>imp. NewProjection ''+proj=longlat +ellps=WGS84 +datum=WGS84 +units=degrees'' =
       Return (Inr imp) \<and>
     Forward imp (18.5 * d2r) (54.2 * d2r) =
       Return (Num (18.5 * d2r), Num (54.2 * d2r), None) \<and>
     Inverse imp (Num (18.5 * d2r)) (Num (54.2 * d2r)) =
       Return (Num (18.5 * d2r), Num (54.2 * d2r), None)"
  using pi_less_4 pi_ge_two
  by (simp add: eval_defs LngLat_init_def d2r_def commonFwd_def commonInv_def LngLat_fwd_def
      LngLat_inv_def half_pi_def epsln_def adjLng_def s_pi_def)

text \<open>
  C4 at the definition \<^verbatim>\<open>+proj=longlat +ellps=WGS84 +lon_0=90\<close> and the point
  (0, 0). \<^verbatim>\<open>Forward\<close> subtracts the central meridian and returns \<open>(-\<pi>/2, 0)\<close>;
  \<^verbatim>\<open>Inverse\<close> of that pair returns \<open>(-\<pi>/2, 0)\<close> again, not \<open>(0, 0)\<close>: the central
  meridian is added to a variable that is not returned.
\<close>

theorem LngLat_lon_0_roundtrip:
  "\<exists>imp. NewProjection ''+proj=longlat +ellps=WGS84 +lon_0=90'' = Return (Inr imp) \<and>
     Forward imp 0 0 = Return (Num (- (pi / 2)), Num 0, None) \<and>
     Inverse imp (Num (- (pi / 2))) (Num 0) = Return (Num (- (pi / 2)), Num 0, None) \<and>
     1 \<le> \<bar>- (pi / 2) - 0\<bar>"
  using pi_less_4 pi_ge_two
  by (simp add: eval_defs LngLat_init_def d2r_def commonFwd_def commonInv_def LngLat_fwd_def
      LngLat_inv_def half_pi_def epsln_def adjLng_def s_pi_def)

subsection \<open>The Mercator kernel\<close>

text \<open>
  The iteration of \<^verbatim>\<open>phi2(e, ts)\<close> with \<open>0 \<le> e \<le> 1\<close> and \<open>0 \<le> ts \<le> 1\<close> never leaves the
  interval from its starting value \<open>\<pi>/2 - 2 arctan ts\<close> to \<open>\<pi>/2\<close>.
\<close>

lemma phi2_loop_range:
  assumes e: "0 \<le> e" "e \<le> 1" and eth: "0 \<le> eth" and ts: "0 \<le> ts" "ts \<le> 1"
  shows "half_pi - 2 * arctan ts \<le> phi \<Longrightarrow> phi \<le> half_pi \<Longrightarrow>
         phi2_loop k e ts eth phi = Inr r \<Longrightarrow>
         half_pi - 2 * arctan ts \<le> r \<and> r \<le> half_pi"
proof (induction k arbitrary: phi)
  case 0
  then show ?case by simp
next
  case (Suc k)
  define P where "P = ((1 - e * sin phi) / (1 + e * sin phi)) powr eth"
  define phi' where "phi' = half_pi - 2 * arctan (ts * P)"
  have "arctan ts \<le> arctan 1" using ts by (simp add: arctan_le_iff)
  then have "arctan ts \<le> pi / 4" by (simp add: arctan_one)
  then have phi0: "0 \<le> phi" using Suc.prems(1) by (simp add: half_pi_def)
  have "phi \<le> pi" using Suc.prems(2) pi_ge_two unfolding half_pi_def by linarith
  with phi0 have s0: "0 \<le> sin phi" by (rule sin_ge_zero)
  have s1: "sin phi \<le> 1" by simp
  have c0: "0 \<le> e * sin phi" using e s0 by simp
  have c1: "e * sin phi \<le> 1" using e s0 s1 mult_le_one by blast
  have r0: "0 \<le> (1 - e * sin phi) / (1 + e * sin phi)" using c0 c1 by simp
  have r1: "(1 - e * sin phi) / (1 + e * sin phi) \<le> 1" using c0 c1 by simp
  have P0: "0 \<le> P" by (simp add: P_def)
  have "\<bar>(1 - e * sin phi) / (1 + e * sin phi)\<bar> \<le> 1" using r0 r1 by linarith
  with eth have P1: "P \<le> 1" unfolding P_def by (rule powr_le1)
  have tP0: "0 \<le> ts * P" using ts P0 by simp
  have tP1: "ts * P \<le> ts" using ts P0 P1 by (simp add: mult_left_le)
  have a0: "0 \<le> arctan (ts * P)" using tP0 by simp
  have a1: "arctan (ts * P) \<le> arctan ts" using tP1 by (simp add: arctan_le_iff)
  have lo: "half_pi - 2 * arctan ts \<le> phi'" using a1 by (simp add: phi'_def)
  have hi: "phi' \<le> half_pi" using a0 by (simp add: phi'_def)
  have step: "phi2_loop (Suc k) e ts eth phi =
      (if \<bar>phi' - phi\<bar> < epsln then Inr phi' else phi2_loop k e ts eth phi')"
    by (simp add: Let_def phi'_def P_def)
  show ?case
  proof (cases "\<bar>phi' - phi\<bar> < epsln")
    case True
    with Suc.prems(3) step have "r = phi'" by simp
    with lo hi show ?thesis by simp
  next
    case False
    with Suc.prems(3) step have "phi2_loop k e ts eth phi' = Inr r" by simp
    from Suc.IH[OF lo hi this] show ?thesis .
  qed
qed

lemma arctan_le_arg: "0 \<le> x \<Longrightarrow> x \<le> 1 \<Longrightarrow> arctan x \<le> x"
proof (cases "x = 0")
  case True
  then show ?thesis by simp
next
  case False
  assume "0 \<le> x" "x \<le> 1"
  with False have "0 < x" by simp
  from arctan_series_bounds(2)[OF this \<open>x \<le> 1\<close>, of 0] show ?thesis by simp
qed

lemma phi2_one_lower:
  assumes "0 \<le> ts" "ts \<le> 1/10" "phi2 1 ts = Inr r"
  shows "4 / 5 \<le> r"
proof -
  have ts1: "ts \<le> 1" using assms by simp
  have "half_pi - 2 * arctan ts \<le> r \<and> r \<le> half_pi"
    using phi2_loop_range[of 1 "1 * 0.5" ts "half_pi - 2 * arctan ts" 16 r] assms ts1
    by (simp add: phi2_def)
  moreover have "arctan ts \<le> 1/10" using arctan_le_arg[OF assms(1) ts1] assms(2) by simp
  ultimately show ?thesis using pi_ge_two by (simp add: half_pi_def)
qed

lemma Mercator_WGS84:
  "\<exists>m. NewProjection ''+proj=merc +ellps=WGS84'' = Return (Inr (Mercator m)) \<and>
     pj_es m = 595514447126000000000 / 88957371407509362414969 \<and> pj_e m = sqrt (pj_es m) \<and>
     pj_a m = 6378137 \<and> pj_ra m = 1 / 6378137 \<and> pj_k0 m = 1 \<and> pj_lam0 m = 0 \<and>
     pj_x0 m = 0 \<and> pj_y0 m = 0 \<and> pj_to_meter m = 1 \<and> pj_fr_meter m = 1 \<and>
     \<not> pj_geoc m \<and> \<not> pj_over m"
  by (simp add: eval_defs Mercator_init_def)

lemma sqrt_es_WGS84: "sqrt (595514447126000000000 / 88957371407509362414969) \<le> 1 / 10"
  by (rule real_le_lsqrt) (simp_all add: power2_eq_square)

text \<open>
  C1 at the definition \<^verbatim>\<open>+proj=merc +ellps=WGS84\<close> (ellipsoidal, \<open>k0 = 1\<close>) and the
  origin. \<^verbatim>\<open>Forward(0, 0)\<close> returns \<open>(0, 0)\<close>. \<^verbatim>\<open>Inverse(0, 0)\<close> calls
  \<^verbatim>\<open>phi2(exp(-0/k0), e)\<close>, that is \<^verbatim>\<open>phi2\<close> with eccentricity 1 and \<open>ts = e\<close>, and
  either fails or returns a latitude of at least 0.8 radians, not 0.
\<close>

theorem Mercator_ellipsoidal_origin:
  "\<exists>imp. NewProjection ''+proj=merc +ellps=WGS84'' = Return (Inr imp) \<and>
      Forward imp 0 0 = Return (Num 0, Num 0, None) \<and>
      ((\<exists>err. Inverse imp (Num 0) (Num 0) = Return (hugeVal, hugeVal, Some err)) \<or>
       (\<exists>lat. Inverse imp (Num 0) (Num 0) = Return (Num 0, Num lat, None) \<and> 4 / 5 \<le> lat))"
proof -
  from Mercator_WGS84 obtain m where
    np: "NewProjection ''+proj=merc +ellps=WGS84'' = Return (Inr (Mercator m))" and
    m: "pj_es m = 595514447126000000000 / 88957371407509362414969" "pj_e m = sqrt (pj_es m)"
      "pj_a m = 6378137" "pj_ra m = 1 / 6378137" "pj_k0 m = 1" "pj_lam0 m = 0"
      "pj_x0 m = 0" "pj_y0 m = 0" "pj_to_meter m = 1" "pj_fr_meter m = 1"
      "\<not> pj_geoc m" "\<not> pj_over m"
    by blast
  have fwd: "Forward (Mercator m) 0 0 = Return (Num 0, Num 0, None)"
    using pi_ge_two
    by (simp add: commonFwd_def Mercator_fwd_def m half_pi_def epsln_def adjLng_def s_pi_def
        tsfn_def tan_45)
  have inv: "Inverse (Mercator m) (Num 0) (Num 0) =
      (case phi2 1 (pj_e m) of
         Inl err \<Rightarrow> Return (hugeVal, hugeVal, Some err)
       | Inr lat \<Rightarrow> Return (Num 0, Num lat, None))"
    by (simp add: commonInv_def Mercator_inv_def m Let_def split: sum.splits)
  have e0: "0 \<le> pj_e m" by (simp add: m)
  have e1: "pj_e m \<le> 1 / 10" using sqrt_es_WGS84 by (simp add: m)
  show ?thesis
  proof (cases "phi2 1 (pj_e m)")
    case (Inl err)
    with np fwd inv show ?thesis by simp
  next
    case (Inr lat)
    from phi2_one_lower[OF e0 e1 Inr] have "4 / 5 \<le> lat" .
    with np fwd inv Inr show ?thesis by simp
  qed
qed

subsection \<open>The scale factor\<close>






























text \<open>
  The initializer of Mercator replaces \<^verbatim>\<open>k0\<close> when \<^verbatim>\<open>lat_ts\<close> is given, after the
  test of the scale and with no test of its own: on a sphere and with
  \<^verbatim>\<open>lat_ts=120\<close> the handle has \<open>k0 = cos 120\<degree> = -1/2\<close>.
\<close>

lemma cos_abs_120: "cos (\<bar>120 * (pi / 180)\<bar>) = - 1 / 2"
proof -
  have "\<bar>120 * (pi / 180)\<bar> = 2 * pi / 3" by simp
  then show ?thesis using cos_120 by simp
qed

lemma Mercator_lat_ts_k0:
  "\<exists>m. NewProjection ''+proj=merc +R=6378137 +lat_ts=120'' = Return (Inr (Mercator m)) \<and>
     pj_k0 m = - 1 / 2"
  using cos_abs_120
  by (simp add: eval_defs Mercator_init_def d2r_def del: abs_mult abs_divide)

end
